theory Spec2Isabelle
  imports Main
begin

section \<open>Drive MCP server (drive_web_mcp_server.py)\<close>

subsection \<open>Data\<close>

text \<open>
  The dictionary stored per client by \<open>oauth2callback\<close> has exactly the six keys
  \<open>token\<close>, \<open>refresh_token\<close>, \<open>token_uri\<close>, \<open>client_id\<close>, \<open>client_secret\<close>
  and \<open>scopes\<close>; \<open>get_drive_service\<close> rebuilds a \<open>Credentials\<close> object from the same
  six values. Both are the record \<open>credentials\<close>. No expiry is stored.
\<close>

record credentials =
  cr_token :: string
  cr_refresh_token :: "string option"
  cr_token_uri :: string
  cr_client_id :: string
  cr_client_secret :: string
  cr_scopes :: "string list"

text \<open>
  Exceptions of the server: the two kinds the source raises itself, the
  \<open>TypeError\<close> of a call with a missing argument, and \<open>ExternalError\<close> for
  anything raised by the Google client libraries or the file system, carrying its
  \<open>str()\<close>.
\<close>

datatype exn =
    ValueError string
  | HTTPException nat string
  | TypeError string
  | ExternalError string

datatype http_response =
    Ok200 string
  | Redirect string
  | HttpError nat string

text \<open>
  An entry of the file listing, with the fields the listing asks for; \<open>webViewLink\<close>
  may be absent.
\<close>

record drive_file =
  file_id :: string
  file_name :: string
  file_mimeType :: string
  file_webViewLink :: "string option"

datatype service = Service string credentials

text \<open>Calls that leave the process, in the order they are made.\<close>

datatype ext_call =
    FetchToken string
  | BuildService string
  | UserInfoGet
  | FilesList string

text \<open>
  What the source takes from outside the repository: the Google client libraries, the
  token and identity endpoints, the Drive API, and how the web framework renders its
  own exception as a string. Each is a parameter of the model.
\<close>

record deps =
  http_exception_str :: "nat \<Rightarrow> string \<Rightarrow> string"
  authorization_url :: "string \<Rightarrow> string"
  flow_from_client_secrets_file :: "exn option"
  fetch_token :: "string \<Rightarrow> exn + credentials"
  build :: "string \<Rightarrow> credentials \<Rightarrow> exn option"
  userinfo_get :: "credentials \<Rightarrow> exn + string option"
  expired :: "credentials \<Rightarrow> bool"
  files_list :: "credentials \<Rightarrow> string \<Rightarrow> exn + drive_file list option"

text \<open>
  The two module-level dictionaries \<open>credentials_store\<close> and \<open>oauth_states\<close>.
  \<open>ext_log\<close> is not a variable of the source: it lists the external calls made so
  far, so that a statement can say that none was made.
\<close>

record server_state =
  credentials_store :: "string \<rightharpoonup> credentials"
  oauth_states :: "string \<rightharpoonup> string"
  ext_log :: "ext_call list"

definition log_call :: "ext_call \<Rightarrow> server_state \<Rightarrow> server_state" where
  "log_call c w = w\<lparr>ext_log := ext_log w @ [c]\<rparr>"

text \<open>\<open>str(e)\<close> for an exception of the server.\<close>

fun exn_str :: "deps \<Rightarrow> exn \<Rightarrow> string" where
  "exn_str d (ValueError msg) = msg"
| "exn_str d (HTTPException status detail) = http_exception_str d status detail"
| "exn_str d (TypeError msg) = msg"
| "exn_str d (ExternalError msg) = msg"

text \<open>Python truthiness of an optional string: neither \<open>None\<close> nor empty.\<close>

fun truthy :: "string option \<Rightarrow> bool" where
  "truthy None = False"
| "truthy (Some s) = (s \<noteq> [])"

text \<open>\<open>sep.join(xs)\<close>.\<close>

fun str_join :: "string \<Rightarrow> string list \<Rightarrow> string" where
  "str_join sep [] = []"
| "str_join sep [x] = x"
| "str_join sep (x # y # ys) = x @ sep @ str_join sep (y # ys)"

definition newline :: string where
  "newline = [CHR 0x0A]"

subsection \<open>Authorization endpoints\<close>

definition get_client_id_from_request :: "string option \<Rightarrow> exn + string" where
  "get_client_id_from_request client_id =
     (if \<not> truthy client_id
      then Inl (HTTPException 400 ''client_id query parameter is required for authorization'')
      else Inr (case client_id of Some c \<Rightarrow> c | None \<Rightarrow> []))"

text \<open>
  \<open>authorize\<close>; the fresh \<open>uuid4\<close> is the argument \<open>state\<close>. The dependency raises
  before the handler runs; an exception inside the handler is unhandled and the
  framework answers 500.
\<close>

definition authorize :: "deps \<Rightarrow> server_state \<Rightarrow> string option \<Rightarrow> string \<Rightarrow> http_response \<times> server_state" where
  "authorize d w client_id_param state =
     (case get_client_id_from_request client_id_param of
        Inl e \<Rightarrow>
          (case e of HTTPException status detail \<Rightarrow> (HttpError status detail, w)
                   | _ \<Rightarrow> (HttpError 500 ''Internal Server Error'', w))
      | Inr client_id \<Rightarrow>
          (let w1 = w\<lparr>oauth_states := (oauth_states w)(state \<mapsto> client_id)\<rparr>
           in case flow_from_client_secrets_file d of
                Some e \<Rightarrow> (HttpError 500 ''Internal Server Error'', w1)
              | None \<Rightarrow> (Redirect (authorization_url d state), w1)))"

text \<open>The body of the \<open>try\<close> block of \<open>oauth2callback\<close>.\<close>

definition oauth2callback_try :: "deps \<Rightarrow> server_state \<Rightarrow> string \<Rightarrow> string \<Rightarrow> (exn + string) \<times> server_state" where
  "oauth2callback_try d w code state =
     (case oauth_states w state of
        None \<Rightarrow> (Inl (HTTPException 400 ''Invalid state parameter''), w)
      | Some client_id \<Rightarrow>
          (let w1 = w\<lparr>oauth_states := (oauth_states w)(state := None)\<rparr>
           in case flow_from_client_secrets_file d of
                Some e \<Rightarrow> (Inl e, w1)
              | None \<Rightarrow>
                  (let w2 = log_call (FetchToken code) w1
                   in case fetch_token d code of
                        Inl e \<Rightarrow> (Inl e, w2)
                      | Inr creds \<Rightarrow>
                          (let w3 = log_call (BuildService ''oauth2'') w2
                           in case build d ''oauth2'' creds of
                                Some e \<Rightarrow> (Inl e, w3)
                              | None \<Rightarrow>
                                  (let w4 = log_call UserInfoGet w3
                                   in case userinfo_get d creds of
                                        Inl e \<Rightarrow> (Inl e, w4)
                                      | Inr user_id \<Rightarrow>
                                          (if \<not> truthy user_id
                                           then (Inl (HTTPException 400 ''Could not retrieve user email''), w4)
                                           else (Inr (''Authentication successful for user: ''
                                                      @ (case user_id of Some u \<Rightarrow> u | None \<Rightarrow> [])
                                                      @ '', You can close this window now.''),
                                                 w4\<lparr>credentials_store :=
                                                      (credentials_store w4)(client_id \<mapsto> creds)\<rparr>)))))))"

text \<open>
  \<open>oauth2callback\<close>: \<open>except Exception\<close> catches every exception of the body, the
  handler's own \<open>HTTPException\<close>s included, and raises status 500 with the caught
  exception's string in the detail.
\<close>

definition oauth2callback :: "deps \<Rightarrow> server_state \<Rightarrow> string \<Rightarrow> string \<Rightarrow> http_response \<times> server_state" where
  "oauth2callback d w code state =
     (case oauth2callback_try d w code state of
        (Inl e, w') \<Rightarrow> (HttpError 500 (''Authentication error: '' @ exn_str d e), w')
      | (Inr body, w') \<Rightarrow> (Ok200 body, w'))"

subsection \<open>Resource service adapter\<close>

text \<open>\<open>build(name, version, credentials=creds)\<close>: an external call that may raise.\<close>

definition build_service :: "deps \<Rightarrow> server_state \<Rightarrow> string \<Rightarrow> credentials \<Rightarrow> (exn + service) \<times> server_state" where
  "build_service d w name creds =
     (let w1 = log_call (BuildService name) w
      in case build d name creds of
           Some e \<Rightarrow> (Inl e, w1)
         | None \<Rightarrow> (Inr (Service name creds), w1))"

text \<open>
  The name \<open>Request\<close>. The module imports it twice: from
  \<open>google.auth.transport.requests\<close> and then, in
  \<open>from fastapi import FastAPI, Request, HTTPException, Depends\<close>, from the web
  framework; the second import rebinds the name. The framework's \<open>Request\<close> has the
  required parameter \<open>scope\<close>, so the call \<open>Request()\<close> raises \<open>TypeError\<close>, with
  this message (as Python 3.10 and later word it).
\<close>

definition request_init_message :: string where
  "request_init_message =
     ''Request.__init__() missing 1 required positional argument: ''
     @ [CHR 0x27] @ ''scope'' @ [CHR 0x27]"

text \<open>
  \<open>get_drive_service\<close>. The \<open>Credentials\<close> object is built from the six values of
  the stored record and is that record here; \<open>creds.expired\<close> is the library's
  (\<open>expired\<close> of \<open>deps\<close>). In \<open>creds.refresh(Request())\<close> the argument is evaluated
  first and raises, so \<open>creds.refresh\<close> is not called and the two assignments after it
  (\<open>creds_data["token"] = creds.token\<close> and the store update) are not reached.
\<close>

definition get_drive_service :: "deps \<Rightarrow> server_state \<Rightarrow> string \<Rightarrow> (exn + service) \<times> server_state" where
  "get_drive_service d w client_id =
     (if client_id = [] then (Inl (ValueError ''No client_id provided''), w)
      else case credentials_store w client_id of
        None \<Rightarrow> (Inl (ValueError (''No credentials found for client_id: '' @ client_id)), w)
      | Some creds_data \<Rightarrow>
          (if expired d creds_data \<and> truthy (cr_refresh_token creds_data)
           then (Inl (TypeError request_init_message), w)
           else build_service d w ''drive'' creds_data))"

subsection \<open>Tools\<close>

definition file_info :: "drive_file \<Rightarrow> string" where
  "file_info item =
     ''- '' @ file_name item @ '' ('' @ file_mimeType item @ '')''
     @ (case file_webViewLink item of
          None \<Rightarrow> []
        | Some link \<Rightarrow> newline @ ''  Link: '' @ link)"

text \<open>
  \<open>search_drive_files\<close>; \<open>header\<close> is \<open>request.headers.get("X-Client-ID")\<close> of
  the current request, which exists on the HTTP transport the server is mounted on. Every
  exception of the body is caught and returned as text.
\<close>

definition search_drive_files :: "deps \<Rightarrow> server_state \<Rightarrow> string option \<Rightarrow> string \<Rightarrow> string \<times> server_state" where
  "search_drive_files d w header query =
     (case header of
        None \<Rightarrow> (''No client_id provided for authentication.'', w)
      | Some client_id \<Rightarrow>
          (if client_id = [] then (''No client_id provided for authentication.'', w)
           else case get_drive_service d w client_id of
             (Inl e, w1) \<Rightarrow> (''Error searching files: '' @ exn_str d e, w1)
           | (Inr (Service name creds), w1) \<Rightarrow>
               (let w2 = log_call (FilesList query) w1
                in case files_list d creds query of
                     Inl e \<Rightarrow> (''Error searching files: '' @ exn_str d e, w2)
                   | Inr results \<Rightarrow>
                       (let items = (case results of None \<Rightarrow> [] | Some fs \<Rightarrow> fs)
                        in if items = [] then (''No files found matching your query.'', w2)
                           else (str_join newline (''Files found:'' # map file_info items), w2)))))"

definition check_authentication_status :: "server_state \<Rightarrow> string option \<Rightarrow> string" where
  "check_authentication_status w header =
     (case header of
        None \<Rightarrow> ''No X-Client-ID header provided for authentication check.''
      | Some client_id \<Rightarrow>
          (if client_id = [] then ''No X-Client-ID header provided for authentication check.''
           else if client_id \<in> dom (credentials_store w) then ''authenticated''
           else ''not authenticated''))"

text \<open>The tools registered with \<open>@mcp.tool()\<close>, and one invocation of a tool.\<close>

datatype tool_call =
    SearchDriveFiles string
  | CheckAuthenticationStatus

fun invoke :: "deps \<Rightarrow> server_state \<Rightarrow> string option \<Rightarrow> tool_call \<Rightarrow> string \<times> server_state" where
  "invoke d w header (SearchDriveFiles query) = search_drive_files d w header query"
| "invoke d w header CheckAuthenticationStatus = (check_authentication_status w header, w)"

section \<open>Gemini MCP client (mcp_client.py)\<close>

subsection \<open>Data\<close>

text \<open>
  Exceptions of the client: those the source or the interpreter raises, and
  \<open>RemoteError\<close> for anything raised by the model provider or the tool session,
  carrying its \<open>str()\<close>.
\<close>

datatype client_exn =
    ConnectionError string
  | TypeError string
  | AttributeError string
  | RemoteError string

fun client_exn_str :: "client_exn \<Rightarrow> string" where
  "client_exn_str (ConnectionError msg) = msg"
| "client_exn_str (TypeError msg) = msg"
| "client_exn_str (AttributeError msg) = msg"
| "client_exn_str (RemoteError msg) = msg"

text \<open>
  The fields of the provider's types that \<open>query\<close> reads or writes. A missing list
  (\<open>None\<close>) and an empty list are both falsy and are both the empty list here.
\<close>

record function_call =
  fc_name :: string
  fc_args :: "(string \<times> string) list option"

record part =
  part_text :: "string option"
  part_function_call :: "function_call option"
  part_function_response :: "(string \<times> string list) option"

record content =
  role :: string
  parts :: "part list"

record candidate =
  cand_content :: "content option"

record response =
  candidates :: "candidate list"

text \<open>
  The model provider and the tool session, over an outside world \<open>'w\<close>. The tool
  declarations and the generation config are fixed during one \<open>query\<close> and are part
  of \<open>generate_content\<close>.
\<close>

record 'w session_io =
  generate_content :: "'w \<Rightarrow> content list \<Rightarrow> (client_exn + response) \<times> 'w"
  call_tool :: "'w \<Rightarrow> string \<Rightarrow> (string \<times> string) list \<Rightarrow> (client_exn + string list) \<times> 'w"

definition part_from_text :: "string \<Rightarrow> part" where
  "part_from_text t = \<lparr>part_text = Some t, part_function_call = None, part_function_response = None\<rparr>"

definition text_of :: "part \<Rightarrow> string" where
  "text_of p = (case part_text p of Some t \<Rightarrow> t | None \<Rightarrow> [])"

subsection \<open>The orchestration loop\<close>

text \<open>
  How the \<open>for part in content.parts\<close> loop is left: at its end with
  \<open>has_tool_call\<close> still false; by \<open>break\<close> with a new model response after a tool
  call; by \<open>return\<close> of the tool-error message; or by an exception.
\<close>

datatype 'w parts_result =
    NoToolCall "string list" 'w
  | NextResponse "string list" "content list" response 'w
  | Returned string 'w
  | Raised client_exn 'w

fun for_parts :: "'w session_io \<Rightarrow> 'w \<Rightarrow> content list \<Rightarrow> string list \<Rightarrow> part list \<Rightarrow> 'w parts_result" where
  "for_parts io w contents final_text_parts [] = NoToolCall final_text_parts w"
| "for_parts io w contents final_text_parts (p # ps) =
     (if truthy (part_text p)
      then for_parts io w contents (final_text_parts @ [text_of p]) ps
      else case part_function_call p of
        None \<Rightarrow> for_parts io w contents final_text_parts ps
      | Some fc \<Rightarrow>
          (case fc_args fc of
             None \<Rightarrow>
               Raised (TypeError ([CHR 0x27] @ ''NoneType'' @ [CHR 0x27] @ '' object is not iterable'')) w
           | Some tool_args \<Rightarrow>
               (case call_tool io w (fc_name fc) tool_args of
                  (Inl e, w1) \<Rightarrow>
                    Returned (''Error executing tool '' @ fc_name fc @ '': '' @ client_exn_str e) w1
                | (Inr result, w1) \<Rightarrow>
                    (let function_response_part =
                           \<lparr>part_text = None, part_function_call = None,
                            part_function_response = Some (fc_name fc, result)\<rparr>;
                         contents' = contents @ [\<lparr>role = ''model'', parts = [p]\<rparr>,
                                                 \<lparr>role = ''user'', parts = [function_response_part]\<rparr>]
                     in case generate_content io w1 contents' of
                          (Inl e, w2) \<Rightarrow>
                            Returned (''Error executing tool '' @ fc_name fc @ '': '' @ client_exn_str e) w2
                        | (Inr response, w2) \<Rightarrow>
                            NextResponse final_text_parts contents' response w2))))"

text \<open>
  The \<open>while\<close> loop. It ends only when the model sends a response without a tool
  call (or a step fails); a model that always asks for a tool keeps it running, and the
  value is then \<open>None\<close>.
\<close>

partial_function (option) while_response ::
  "'w session_io \<Rightarrow> 'w \<Rightarrow> content list \<Rightarrow> string list \<Rightarrow> response \<Rightarrow> ((client_exn + string) \<times> 'w) option" where
  "while_response io w contents final_text_parts response =
     (case candidates response of
        [] \<Rightarrow> Some (Inr (str_join newline final_text_parts), w)
      | candidate # _ \<Rightarrow>
          (case cand_content candidate of
             None \<Rightarrow>
               Some (Inl (AttributeError ([CHR 0x27] @ ''NoneType'' @ [CHR 0x27]
                            @ '' object has no attribute '' @ [CHR 0x27] @ ''parts'' @ [CHR 0x27])), w)
           | Some content \<Rightarrow>
               (if parts content = [] then Some (Inr (str_join newline final_text_parts), w)
                else case for_parts io w contents final_text_parts (parts content) of
                  NoToolCall texts w' \<Rightarrow> Some (Inr (str_join newline texts), w')
                | NextResponse texts contents' response' w' \<Rightarrow>
                    while_response io w' contents' texts response'
                | Returned msg w' \<Rightarrow> Some (Inr msg, w')
                | Raised e w' \<Rightarrow> Some (Inl e, w'))))"

text \<open>\<open>GeminiMCPClient.query\<close>; \<open>session\<close> tells whether \<open>self.session\<close> is set.\<close>

definition query :: "'w session_io \<Rightarrow> bool \<Rightarrow> 'w \<Rightarrow> string \<Rightarrow> ((client_exn + string) \<times> 'w) option" where
  "query io session w q =
     (if \<not> session
      then Some (Inl (ConnectionError ''Not connected to a server. Call connect_to_server first.''), w)
      else (let contents = [\<lparr>role = ''user'', parts = [part_from_text q]\<rparr>]
            in case generate_content io w contents of
                 (Inl e, w1) \<Rightarrow> Some (Inl e, w1)
               | (Inr response, w1) \<Rightarrow> while_response io w1 contents [] response))"

subsection \<open>Runs of the loop\<close>

text \<open>
  The parts of a response that the loop walks through, and whether reading them raises
  (the first candidate has no content).
\<close>

definition response_parts :: "response \<Rightarrow> part list" where
  "response_parts r =
     (case candidates r of
        [] \<Rightarrow> []
      | candidate # _ \<Rightarrow> (case cand_content candidate of None \<Rightarrow> [] | Some c \<Rightarrow> parts c))"

definition content_missing :: "response \<Rightarrow> bool" where
  "content_missing r =
     (case candidates r of [] \<Rightarrow> False | candidate # _ \<Rightarrow> cand_content candidate = None)"

text \<open>A part at which the loop calls a tool: no text, and a function call.\<close>

definition dispatches :: "part \<Rightarrow> bool" where
  "dispatches p = (\<not> truthy (part_text p) \<and> part_function_call p \<noteq> None)"

text \<open>
  The text fragments a response contributes: its non-empty texts, in order, up to its
  first tool call. \<open>response_texts\<close> are all non-empty texts of a response.
\<close>

definition texts_before_call :: "part list \<Rightarrow> string list" where
  "texts_before_call ps =
     map text_of (filter (\<lambda>p. truthy (part_text p)) (takeWhile (\<lambda>p. \<not> dispatches p) ps))"

definition accumulated_texts :: "response \<Rightarrow> string list" where
  "accumulated_texts r = texts_before_call (response_parts r)"

definition response_texts :: "response \<Rightarrow> string list" where
  "response_texts r = map text_of (filter (\<lambda>p. truthy (part_text p)) (response_parts r))"

text \<open>
  \<open>run_responses io w contents r rs\<close>: entered with the response \<open>r\<close>, the loop
  receives exactly the further responses \<open>rs\<close>, each after a tool call that succeeded,
  and the last response of the run makes no tool call.
\<close>

fun run_responses :: "'w session_io \<Rightarrow> 'w \<Rightarrow> content list \<Rightarrow> response \<Rightarrow> response list \<Rightarrow> bool" where
  "run_responses io w contents r [] =
     (\<not> content_missing r \<and>
      (case for_parts io w contents [] (response_parts r) of
         NoToolCall texts w' \<Rightarrow> True
       | _ \<Rightarrow> False))"
| "run_responses io w contents r (r' # rs) =
     (\<not> content_missing r \<and>
      (case for_parts io w contents [] (response_parts r) of
         NextResponse texts contents' response' w' \<Rightarrow>
           response' = r' \<and> run_responses io w' contents' r' rs
       | _ \<Rightarrow> False))"

section \<open>Example values\<close>

subsection \<open>Server\<close>

text \<open>
  A world in which every external call succeeds; the framework renders its exception
  as \<open>f"{status_code}: {detail}"\<close> (written out for the two status codes that occur).
\<close>

definition creds_a :: credentials where
  "creds_a = \<lparr>cr_token = ''tok1'', cr_refresh_token = Some ''rt1'',
     cr_token_uri = ''https://oauth2.googleapis.com/token'',
     cr_client_id = ''app'', cr_client_secret = ''secret'', cr_scopes = [''openid'']\<rparr>"

definition deps_ok :: deps where
  "deps_ok = \<lparr>http_exception_str =
       (\<lambda>status detail. (if status = 400 then ''400'' else ''500'') @ '': '' @ detail),
     authorization_url = (\<lambda>state. ''https://accounts.google.com/o/oauth2/auth?state='' @ state),
     flow_from_client_secrets_file = None,
     fetch_token = (\<lambda>code. Inr creds_a),
     build = (\<lambda>name creds. None),
     userinfo_get = (\<lambda>creds. Inr (Some ''ann@example.com'')),
     expired = (\<lambda>creds. False),
     files_list = (\<lambda>creds query. Inr (Some []))\<rparr>"

text \<open>The same world once the access tokens have expired.\<close>

definition deps_expired :: deps where
  "deps_expired = deps_ok\<lparr>expired := (\<lambda>creds. True)\<rparr>"

text \<open>The same world with a token endpoint that rejects the authorization code.\<close>

definition deps_exchange_fails :: deps where
  "deps_exchange_fails = deps_ok\<lparr>fetch_token := (\<lambda>code. Inl (ExternalError ''invalid_grant''))\<rparr>"

definition state0 :: server_state where
  "state0 = \<lparr>credentials_store = Map.empty, oauth_states = Map.empty, ext_log = []\<rparr>"

text \<open>Client \<open>c1\<close> has opened \<open>/authorize\<close> and holds the flow token \<open>s1\<close>.\<close>

definition state_pending :: server_state where
  "state_pending = snd (authorize deps_ok state0 (Some ''c1'') ''s1'')"

text \<open>The callback for \<open>s1\<close> has succeeded.\<close>

definition state_done :: server_state where
  "state_done = snd (oauth2callback deps_ok state_pending ''code'' ''s1'')"

text \<open>The callback for \<open>s1\<close> has failed at the token exchange.\<close>

definition state_failed :: server_state where
  "state_failed = snd (oauth2callback deps_exchange_fails state_pending ''code'' ''s1'')"

text \<open>A store whose record for \<open>c1\<close> has no refresh token.\<close>

definition creds_stale :: credentials where
  "creds_stale = creds_a\<lparr>cr_refresh_token := None\<rparr>"

definition state_stale :: server_state where
  "state_stale = state0\<lparr>credentials_store := [''c1'' \<mapsto> creds_stale]\<rparr>"

subsection \<open>Client\<close>

text \<open>A model that answers at once, with two text parts.\<close>

definition resp_two_texts :: response where
  "resp_two_texts =
     \<lparr>candidates = [\<lparr>cand_content =
        Some \<lparr>role = ''model'', parts = [part_from_text ''Hello'', part_from_text ''world'']\<rparr>\<rparr>]\<rparr>"

definition io_two_texts :: "unit session_io" where
  "io_two_texts =
     \<lparr>generate_content = (\<lambda>w contents. (Inr resp_two_texts, w)),
      call_tool = (\<lambda>w name args. (Inr [], w))\<rparr>"

text \<open>
  A model that first asks for \<open>search_drive_files\<close>, with no text, and answers in text
  once the tool result is in the history.
\<close>

definition resp_call :: response where
  "resp_call =
     \<lparr>candidates = [\<lparr>cand_content =
        Some \<lparr>role = ''model'',
              parts = [\<lparr>part_text = None,
                        part_function_call =
                          Some \<lparr>fc_name = ''search_drive_files'',
                                fc_args = Some [(''query'', ''trashed = false'')]\<rparr>,
                        part_function_response = None\<rparr>]\<rparr>\<rparr>]\<rparr>"

definition resp_final :: response where
  "resp_final =
     \<lparr>candidates = [\<lparr>cand_content =
        Some \<lparr>role = ''model'',
              parts = [part_from_text ''Your Drive has no such files.'',
                       part_from_text ''Anything else?'']\<rparr>\<rparr>]\<rparr>"

definition io_search :: "unit session_io" where
  "io_search =
     \<lparr>generate_content =
        (\<lambda>w contents. (Inr (if length contents = 1 then resp_call else resp_final), w)),
      call_tool = (\<lambda>w name args. (Inr [''No files found matching your query.''], w))\<rparr>"

section \<open>Properties of the server\<close>

subsection \<open>Auxiliary facts\<close>

lemma oauth2callback_unknown_state:
  "oauth_states w state = None \<Longrightarrow>
   oauth2callback d w code state =
     (HttpError 500 (''Authentication error: '' @ http_exception_str d 400 ''Invalid state parameter''), w)"
  by (simp add: oauth2callback_def oauth2callback_try_def)

lemma oauth2callback_store:
  "credentials_store (snd (oauth2callback d w code state)) c = credentials_store w c \<or>
   oauth_states w state = Some c"
  by (auto simp: oauth2callback_def oauth2callback_try_def log_call_def Let_def
           split: option.splits sum.splits)

lemma state_pending_simps:
  "oauth_states state_pending = [''s1'' \<mapsto> ''c1'']"
  "credentials_store state_pending = Map.empty"
  "ext_log state_pending = []"
  by (simp_all add: state_pending_def authorize_def get_client_id_from_request_def
        deps_ok_def state0_def)

lemma state_done_simps:
  "oauth_states state_done = Map.empty"
  "credentials_store state_done = [''c1'' \<mapsto> creds_a]"
  "ext_log state_done = [FetchToken ''code'', BuildService ''oauth2'', UserInfoGet]"
  "fst (oauth2callback deps_ok state_pending ''code'' ''s1'') =
     Ok200 ''Authentication successful for user: ann@example.com, You can close this window now.''"
  by (simp_all add: state_done_def oauth2callback_def oauth2callback_try_def
        state_pending_simps log_call_def deps_ok_def)

lemma state_failed_simps:
  "oauth_states state_failed = Map.empty"
  "credentials_store state_failed = Map.empty"
  "ext_log state_failed = [FetchToken ''code'']"
  "fst (oauth2callback deps_exchange_fails state_pending ''code'' ''s1'') =
     HttpError 500 ''Authentication error: invalid_grant''"
  by (simp_all add: state_failed_def oauth2callback_def oauth2callback_try_def
        state_pending_simps log_call_def deps_exchange_fails_def deps_ok_def)

subsection \<open>Authorization callback\<close>

text \<open>
  C1. A flow token that a successful callback has consumed is presented again. The
  handler raises \<open>HTTPException(status_code=400, detail="Invalid state parameter")\<close>
  inside its own \<open>try\<close>; \<open>except Exception\<close> catches it and the answer is status 500
  with detail \<open>Authentication error: \<close> followed by the string of the caught exception,
  not status 400. A token that was never issued (\<open>s0\<close>) gets the same answer.
\<close>

theorem reused_token_answered_500:
  "fst (oauth2callback deps_ok state_pending ''code'' ''s1'') =
     Ok200 ''Authentication successful for user: ann@example.com, You can close this window now.'' \<and>
   fst (oauth2callback deps_ok state_done ''code'' ''s1'') =
     HttpError 500 ''Authentication error: 400: Invalid state parameter'' \<and>
   fst (oauth2callback deps_ok state_done ''code'' ''s0'') =
     HttpError 500 ''Authentication error: 400: Invalid state parameter''"
  by (simp add: state_done_simps oauth2callback_unknown_state) (simp add: deps_ok_def)

text \<open>
  C10. The flow token is popped before the token exchange is attempted. When a callback
  that found its token ends in an error (the exchange, the service construction or the
  identity lookup raised, or no email came back), the token is gone and the credential
  store is as before; a retry with the same \<open>state\<close>, whatever the code and however the
  outside world answers, takes the invalid-state branch and changes nothing.
\<close>

theorem failed_callback_consumes_token:
  assumes "oauth_states w state = Some client_id"
    and "oauth2callback d w code state = (HttpError status detail, w')"
  shows "oauth_states w' state = None \<and>
         credentials_store w' = credentials_store w \<and>
         oauth2callback d' w' code' state =
           (HttpError 500 (''Authentication error: '' @ http_exception_str d' 400 ''Invalid state parameter''), w')"
proof -
  have "oauth_states w' state = None \<and> credentials_store w' = credentials_store w"
    using assms
    by (auto simp: oauth2callback_def oauth2callback_try_def log_call_def Let_def
             split: option.splits sum.splits if_splits)
  then show ?thesis
    by (simp add: oauth2callback_unknown_state)
qed

text \<open>
  The token endpoint rejects the code of client \<open>c1\<close>: the exchange was attempted
  (it is in the log), the token \<open>s1\<close> is gone, nothing is stored for \<open>c1\<close>, and a
  retry against a world where everything would succeed is turned away.
\<close>

theorem failed_callback_consumes_token_witness:
  "oauth_states state_pending ''s1'' = Some ''c1'' \<and>
   oauth2callback deps_exchange_fails state_pending ''code'' ''s1'' =
     (HttpError 500 ''Authentication error: invalid_grant'', state_failed) \<and>
   ext_log state_failed = [FetchToken ''code''] \<and>
   oauth_states state_failed ''s1'' = None \<and>
   credentials_store state_failed ''c1'' = None \<and>
   oauth2callback deps_ok state_failed ''code'' ''s1'' =
     (HttpError 500 ''Authentication error: 400: Invalid state parameter'', state_failed)"
proof -
  have p: "oauth_states state_pending ''s1'' = Some ''c1''"
    by (simp add: state_pending_simps)
  have f: "oauth2callback deps_exchange_fails state_pending ''code'' ''s1'' =
             (HttpError 500 ''Authentication error: invalid_grant'', state_failed)"
    by (simp add: prod_eq_iff state_failed_simps) (simp add: state_failed_def)
  have h: "http_exception_str deps_ok 400 ''Invalid state parameter'' = ''400: Invalid state parameter''"
    by (simp add: deps_ok_def)
  show ?thesis
    using failed_callback_consumes_token [OF p f, of deps_ok "''code''"] p f h
    by (simp add: state_failed_simps state_pending_simps)
qed

text \<open>
  C7. A callback whose flow token belongs to client \<open>c1\<close> leaves the answer of
  \<open>check_authentication_status\<close> for every other client \<open>c2\<close> as it was; a client
  \<open>c2\<close> without a record is not reported as authenticated afterwards.
\<close>

theorem authentication_isolated:
  "oauth_states w state = Some c1 \<Longrightarrow> c2 \<noteq> c1 \<Longrightarrow>
   check_authentication_status (snd (oauth2callback d w code state)) (Some c2)
     = check_authentication_status w (Some c2) \<and>
   (c2 \<notin> dom (credentials_store w) \<longrightarrow>
      check_authentication_status (snd (oauth2callback d w code state)) (Some c2) \<noteq> ''authenticated'')"
  using oauth2callback_store [of d w code state c2]
  by (auto simp: check_authentication_status_def dom_def)

text \<open>
  Client \<open>c1\<close> completes its authentication: \<open>c1\<close> turns authenticated, \<open>c2\<close> stays
  not authenticated.
\<close>

theorem authentication_isolated_witness:
  "oauth_states state_pending ''s1'' = Some ''c1'' \<and> ''c2'' \<noteq> ''c1'' \<and>
   ''c2'' \<notin> dom (credentials_store state_pending) \<and>
   check_authentication_status state_pending (Some ''c1'') = ''not authenticated'' \<and>
   check_authentication_status (snd (oauth2callback deps_ok state_pending ''code'' ''s1'')) (Some ''c1'')
     = ''authenticated'' \<and>
   check_authentication_status (snd (oauth2callback deps_ok state_pending ''code'' ''s1'')) (Some ''c2'')
     = ''not authenticated''"
  using authentication_isolated [of state_pending "''s1''" "''c1''" "''c2''" deps_ok "''code''"]
  by (simp add: state_pending_simps state_done_simps [unfolded state_done_def]
        check_authentication_status_def)

subsection \<open>Credential resolution\<close>

text \<open>
  C5. For a client identifier without a record, \<open>get_drive_service\<close> raises
  \<open>ValueError\<close> (for a non-empty identifier with the message
  \<open>No credentials found for client_id: ...\<close>, for the empty one with
  \<open>No client_id provided\<close>), whatever the outside world would answer, and returns the
  state, with its log of external calls, as it was.
\<close>

theorem get_drive_service_no_record:
  "credentials_store w client_id = None \<Longrightarrow>
   get_drive_service d w client_id =
     (Inl (ValueError (if client_id = [] then ''No client_id provided''
                       else ''No credentials found for client_id: '' @ client_id)), w)"
  by (simp add: get_drive_service_def)

theorem get_drive_service_no_record_witness:
  "credentials_store state0 ''c1'' = None \<and>
   get_drive_service deps_ok state0 ''c1'' =
     (Inl (ValueError ''No credentials found for client_id: c1''), state0)"
  using get_drive_service_no_record [of state0 "''c1''" deps_ok]
  by (simp add: state0_def)



text \<open>
  C4, as the source has it. The stored record of a client is expired and holds no
  refresh token. \<open>get_drive_service\<close> makes no refresh and changes neither dictionary,
  and it does not raise on that account: it passes the stored, expired credentials
  unchanged to the service constructor and returns the handle built on them (or the
  constructor's own exception).
\<close>

theorem resolution_stale_no_refresh_token:
  assumes "client_id \<noteq> []"
    and "credentials_store w client_id = Some rec"
    and "expired d rec"
    and "\<not> truthy (cr_refresh_token rec)"
  shows "get_drive_service d w client_id =
           (case build d ''drive'' rec of Some e \<Rightarrow> Inl e | None \<Rightarrow> Inr (Service ''drive'' rec),
            w\<lparr>ext_log := ext_log w @ [BuildService ''drive'']\<rparr>)"
  using assms
  by (auto simp: get_drive_service_def build_service_def log_call_def Let_def
           split: sum.splits option.splits)

theorem resolution_stale_no_refresh_token_witness:
  "''c1'' \<noteq> [] \<and>
   credentials_store state_stale ''c1'' = Some creds_stale \<and>
   expired deps_expired creds_stale \<and>
   \<not> truthy (cr_refresh_token creds_stale) \<and>
   get_drive_service deps_expired state_stale ''c1'' =
     (Inr (Service ''drive'' creds_stale), state_stale\<lparr>ext_log := [BuildService ''drive'']\<rparr>)"
proof -
  have s: "credentials_store state_stale ''c1'' = Some creds_stale"
    by (simp add: state_stale_def)
  have e: "expired deps_expired creds_stale"
    by (simp add: deps_expired_def)
  have t: "\<not> truthy (cr_refresh_token creds_stale)"
    by (simp add: creds_stale_def)
  have b: "build deps_expired ''drive'' creds_stale = None"
    by (simp add: deps_expired_def deps_ok_def)
  have l: "ext_log state_stale = []"
    by (simp add: state_stale_def state0_def)
  show ?thesis
    using resolution_stale_no_refresh_token [OF _ s e t] s e t b l by simp
qed

text \<open>
  C4, as stated, fails: the record of \<open>c1\<close> is expired and has no refresh token, and
  credential resolution returns a service handle instead of failing.
\<close>

theorem stale_resolution_succeeds:
  "credentials_store state_stale ''c1'' = Some creds_stale \<and>
   expired deps_expired creds_stale \<and>
   cr_refresh_token creds_stale = None \<and>
   fst (get_drive_service deps_expired state_stale ''c1'') = Inr (Service ''drive'' creds_stale)"
  by (simp add: get_drive_service_def build_service_def state_stale_def creds_stale_def
        deps_expired_def deps_ok_def state0_def)

subsection \<open>Tools\<close>

text \<open>
  C6. For a non-empty \<open>X-Client-ID\<close>, \<open>check_authentication_status\<close> answers
  \<open>authenticated\<close> exactly when the credential store has a record under that
  identifier and \<open>not authenticated\<close> exactly when it has none. The answer is
  \<open>authenticated\<close> whatever record is stored: the function reads no field of it
  and has no access to the outside world.
\<close>

theorem check_authentication_status_presence:
  "client_id \<noteq> [] \<Longrightarrow>
   (check_authentication_status w (Some client_id) = ''authenticated'')
      = (client_id \<in> dom (credentials_store w)) \<and>
   (check_authentication_status w (Some client_id) = ''not authenticated'')
      = (client_id \<notin> dom (credentials_store w)) \<and>
   check_authentication_status (w\<lparr>credentials_store := (credentials_store w)(client_id \<mapsto> r)\<rparr>)
      (Some client_id) = ''authenticated''"
  by (simp add: check_authentication_status_def)

theorem check_authentication_status_presence_witness:
  "''c1'' \<noteq> [] \<and>
   check_authentication_status state_done (Some ''c1'') = ''authenticated'' \<and>
   check_authentication_status state_pending (Some ''c1'') = ''not authenticated'' \<and>
   check_authentication_status state_stale (Some ''c1'') = ''authenticated''"
  using check_authentication_status_presence [of "''c1''" state_done]
        check_authentication_status_presence [of "''c1''" state_pending]
        check_authentication_status_presence [of "''c1''" state0 creds_stale]
  by (simp add: state_done_simps state_pending_simps state_stale_def state0_def)

text \<open>
  C8. Credential resolution succeeds and the file listing returns without files (an
  empty \<open>files\<close> list, or no \<open>files\<close> key): \<open>search_drive_files\<close> returns exactly
  \<open>No files found matching your query.\<close>, for every query.
\<close>

theorem search_drive_files_empty:
  "get_drive_service d w client_id = (Inr (Service name creds), w1) \<Longrightarrow>
   files_list d creds q = Inr results \<Longrightarrow>
   results = None \<or> results = Some [] \<Longrightarrow>
   search_drive_files d w (Some client_id) q
     = (''No files found matching your query.'', log_call (FilesList q) w1)"
  by (cases "client_id = []") (auto simp: search_drive_files_def get_drive_service_def)

theorem search_drive_files_empty_witness:
  "fst (get_drive_service deps_ok state_done ''c1'') = Inr (Service ''drive'' creds_a) \<and>
   files_list deps_ok creds_a ''trashed = false'' = Inr (Some []) \<and>
   fst (search_drive_files deps_ok state_done (Some ''c1'') ''trashed = false'')
     = ''No files found matching your query.''"
proof -
  have g: "get_drive_service deps_ok state_done ''c1''
             = (Inr (Service ''drive'' creds_a), log_call (BuildService ''drive'') state_done)"
    by (simp add: get_drive_service_def build_service_def state_done_simps deps_ok_def)
  have f: "files_list deps_ok creds_a ''trashed = false'' = Inr (Some [])"
    by (simp add: deps_ok_def)
  show ?thesis
    using search_drive_files_empty [OF g f] g f by simp
qed

text \<open>
  C9, as the source has it. Invoked without an \<open>X-Client-ID\<close> header, every tool
  returns a text and nothing else happens: the state, with its log of external calls, is
  unchanged, whatever the arguments, the stores and the outside world. The text is fixed
  for each tool and is not the same for both: \<open>search_drive_files\<close> answers
  \<open>No client_id provided for authentication.\<close> and \<open>check_authentication_status\<close>
  answers \<open>No X-Client-ID header provided for authentication check.\<close> An empty header
  value is treated as a missing one.
\<close>

theorem missing_header_is_text:
  "invoke d w None tc =
     (case tc of
        SearchDriveFiles q \<Rightarrow> ''No client_id provided for authentication.''
      | CheckAuthenticationStatus \<Rightarrow> ''No X-Client-ID header provided for authentication check.'', w) \<and>
   invoke d w (Some []) tc = invoke d w None tc"
  by (cases tc) (simp_all add: search_drive_files_def check_authentication_status_def)

text \<open>
  C9, as stated, fails in its last part: without the header the two tools do not give
  the same answer.
\<close>

theorem missing_header_texts_differ:
  "fst (invoke deps_ok state0 None (SearchDriveFiles ''trashed = false''))
     = ''No client_id provided for authentication.'' \<and>
   fst (invoke deps_ok state0 None CheckAuthenticationStatus)
     = ''No X-Client-ID header provided for authentication check.'' \<and>
   fst (invoke deps_ok state0 None (SearchDriveFiles ''trashed = false''))
     \<noteq> fst (invoke deps_ok state0 None CheckAuthenticationStatus)"
  by (simp add: search_drive_files_def check_authentication_status_def)

section \<open>Properties of the client\<close>

subsection \<open>Auxiliary facts\<close>

lemma for_parts_NoToolCall:
  "for_parts io w contents acc ps = NoToolCall texts w' \<Longrightarrow>
   texts = acc @ texts_before_call ps \<and> w' = w \<and>
   texts_before_call ps = map text_of (filter (\<lambda>p. truthy (part_text p)) ps)"
proof (induction ps arbitrary: acc)
  case Nil
  then show ?case by (simp add: texts_before_call_def)
next
  case (Cons p ps)
  show ?case
  proof (cases "truthy (part_text p)")
    case True
    with Cons.prems have "for_parts io w contents (acc @ [text_of p]) ps = NoToolCall texts w'"
      by simp
    from Cons.IH [OF this] True show ?thesis
      by (simp add: texts_before_call_def dispatches_def)
  next
    case False
    with Cons.prems have n: "part_function_call p = None"
      by (auto split: option.splits prod.splits sum.splits simp: Let_def)
    with False Cons.prems have "for_parts io w contents acc ps = NoToolCall texts w'"
      by simp
    from Cons.IH [OF this] False n show ?thesis
      by (simp add: texts_before_call_def dispatches_def)
  qed
qed

lemma for_parts_NextResponse:
  "for_parts io w contents acc ps = NextResponse texts contents' r' w' \<Longrightarrow>
   texts = acc @ texts_before_call ps"
proof (induction ps arbitrary: acc)
  case Nil
  then show ?case by simp
next
  case (Cons p ps)
  show ?case
  proof (cases "truthy (part_text p)")
    case True
    with Cons.prems have "for_parts io w contents (acc @ [text_of p]) ps = NextResponse texts contents' r' w'"
      by simp
    from Cons.IH [OF this] True show ?thesis
      by (simp add: texts_before_call_def dispatches_def)
  next
    case False
    show ?thesis
    proof (cases "part_function_call p")
      case None
      with False Cons.prems have "for_parts io w contents acc ps = NextResponse texts contents' r' w'"
        by simp
      from Cons.IH [OF this] False None show ?thesis
        by (simp add: texts_before_call_def dispatches_def)
    next
      case (Some fc)
      with False Cons.prems have "texts = acc"
        by (auto split: option.splits prod.splits sum.splits simp: Let_def)
      with False Some show ?thesis
        by (simp add: texts_before_call_def dispatches_def)
    qed
  qed
qed

lemma for_parts_append:
  "for_parts io w contents (acc @ acc') ps =
     (case for_parts io w contents acc' ps of
        NoToolCall texts w' \<Rightarrow> NoToolCall (acc @ texts) w'
      | NextResponse texts contents' r' w' \<Rightarrow> NextResponse (acc @ texts) contents' r' w'
      | Returned msg w' \<Rightarrow> Returned msg w'
      | Raised e w' \<Rightarrow> Raised e w')"
proof (induction ps arbitrary: acc')
  case Nil
  show ?case by simp
next
  case (Cons p ps)
  from Cons.IH [of "acc' @ [text_of p]"] Cons.IH [of acc'] show ?case
    by (simp add: Let_def split: option.splits prod.splits sum.splits)
qed

lemma for_parts_acc:
  "for_parts io w contents acc ps =
     (case for_parts io w contents [] ps of
        NoToolCall texts w' \<Rightarrow> NoToolCall (acc @ texts) w'
      | NextResponse texts contents' r' w' \<Rightarrow> NextResponse (acc @ texts) contents' r' w'
      | Returned msg w' \<Rightarrow> Returned msg w'
      | Raised e w' \<Rightarrow> Raised e w')"
  using for_parts_append [of io w contents acc "[]" ps] by simp

lemma while_response_run:
  "run_responses io w contents r rs \<Longrightarrow>
   \<exists>w'. while_response io w contents acc r =
     Some (Inr (str_join newline (acc @ concat (map accumulated_texts (r # rs)))), w')"
proof (induction rs arbitrary: w contents acc r)
  case Nil
  then obtain texts w' where
    f: "for_parts io w contents [] (response_parts r) = NoToolCall texts w'"
    and c: "\<not> content_missing r"
    by (auto split: parts_result.splits)
  from for_parts_NoToolCall [OF f] have t: "texts = accumulated_texts r"
    by (simp add: accumulated_texts_def)
  have g: "for_parts io w contents acc (response_parts r) = NoToolCall (acc @ texts) w'"
    by (subst for_parts_acc) (simp add: f)
  show ?case
    using c g t
    by (subst while_response.simps)
       (auto simp: response_parts_def content_missing_def accumulated_texts_def
          texts_before_call_def split: list.splits option.splits)
next
  case (Cons r' rs)
  then obtain texts contents' w' where
    f: "for_parts io w contents [] (response_parts r) = NextResponse texts contents' r' w'"
    and c: "\<not> content_missing r"
    and run: "run_responses io w' contents' r' rs"
    by (auto split: parts_result.splits)
  from for_parts_NextResponse [OF f] have t: "texts = accumulated_texts r"
    by (simp add: accumulated_texts_def)
  have g: "for_parts io w contents acc (response_parts r) = NextResponse (acc @ texts) contents' r' w'"
    by (subst for_parts_acc) (simp add: f)
  from Cons.IH [OF run, of "acc @ texts"] obtain w'' where
    ih: "while_response io w' contents' (acc @ texts) r' =
           Some (Inr (str_join newline ((acc @ texts) @ concat (map accumulated_texts (r' # rs)))), w'')"
    by blast
  have ne: "response_parts r \<noteq> []"
    using f by auto
  show ?case
    using c g t ih ne
    by (subst while_response.simps)
       (auto simp: response_parts_def content_missing_def split: list.splits option.splits)
qed

lemma run_responses_last:
  "run_responses io w contents r rs \<Longrightarrow>
   accumulated_texts (last (r # rs)) = response_texts (last (r # rs))"
proof (induction rs arbitrary: w contents r)
  case Nil
  then obtain texts w' where
    "for_parts io w contents [] (response_parts r) = NoToolCall texts w'"
    by (auto split: parts_result.splits)
  from for_parts_NoToolCall [OF this] show ?case
    by (simp add: accumulated_texts_def response_texts_def)
next
  case (Cons r' rs)
  then obtain texts contents' w' where "run_responses io w' contents' r' rs"
    by (auto split: parts_result.splits)
  from Cons.IH [OF this] show ?case by simp
qed

lemma concat_only_last:
  "xs \<noteq> [] \<Longrightarrow> \<forall>x\<in>set (butlast xs). f x = [] \<Longrightarrow> concat (map f xs) = f (last xs)"
  by (induction xs) auto

lemma io_search_first:
  "generate_content io_search () [\<lparr>role = ''user'', parts = [part_from_text ''List my files'']\<rparr>]
     = (Inr resp_call, ())"
  by (simp add: io_search_def)

lemma io_search_run:
  "run_responses io_search () [\<lparr>role = ''user'', parts = [part_from_text ''List my files'']\<rparr>]
     resp_call [resp_final]"
  by (simp add: io_search_def resp_call_def resp_final_def response_parts_def
        content_missing_def part_from_text_def)

subsection \<open>Result of a query\<close>

text \<open>
  C2, as the source has it. The first model response is \<open>r\<close>, the loop then receives
  the responses \<open>rs\<close>, and the last response of the run makes no tool call. Then
  \<open>query\<close> returns, and its value is the text fragments accumulated from all
  responses of the run, in turn order, joined with one newline between consecutive
  fragments. A response with a tool call contributes its non-empty texts before that
  call; the last response contributes all its non-empty texts. When no response before
  the last contributes a fragment, the value is the newline-joined texts of the last
  response.
\<close>

theorem query_joins_accumulated_texts:
  assumes "generate_content io w [\<lparr>role = ''user'', parts = [part_from_text q]\<rparr>] = (Inr r, w1)"
    and "run_responses io w1 [\<lparr>role = ''user'', parts = [part_from_text q]\<rparr>] r rs"
  shows "map_option fst (query io True w q) =
           Some (Inr (str_join newline (concat (map accumulated_texts (r # rs))))) \<and>
         accumulated_texts (last (r # rs)) = response_texts (last (r # rs)) \<and>
         ((\<forall>r'\<in>set (butlast (r # rs)). accumulated_texts r' = []) \<longrightarrow>
            map_option fst (query io True w q) =
              Some (Inr (str_join newline (response_texts (last (r # rs))))))"
proof -
  from while_response_run [OF assms(2), of "[]"] obtain w' where
    "while_response io w1 [\<lparr>role = ''user'', parts = [part_from_text q]\<rparr>] [] r =
       Some (Inr (str_join newline (concat (map accumulated_texts (r # rs)))), w')"
    by auto
  with assms(1) have a: "map_option fst (query io True w q) =
      Some (Inr (str_join newline (concat (map accumulated_texts (r # rs)))))"
    by (simp add: query_def)
  have b: "accumulated_texts (last (r # rs)) = response_texts (last (r # rs))"
    by (rule run_responses_last [OF assms(2)])
  have c: "concat (map accumulated_texts (r # rs)) = response_texts (last (r # rs))"
    if "\<forall>r'\<in>set (butlast (r # rs)). accumulated_texts r' = []"
    using concat_only_last [of "r # rs" accumulated_texts] that b by simp
  show ?thesis
    using a b c by auto
qed

text \<open>
  The model asks for \<open>search_drive_files\<close> without text and then answers with two
  text parts: the value is the two parts of the final answer with a newline between.
\<close>

theorem query_joins_accumulated_texts_witness:
  "generate_content io_search () [\<lparr>role = ''user'', parts = [part_from_text ''List my files'']\<rparr>]
     = (Inr resp_call, ()) \<and>
   run_responses io_search () [\<lparr>role = ''user'', parts = [part_from_text ''List my files'']\<rparr>]
     resp_call [resp_final] \<and>
   accumulated_texts resp_call = [] \<and>
   response_texts resp_final = [''Your Drive has no such files.'', ''Anything else?''] \<and>
   map_option fst (query io_search True () ''List my files'') =
     Some (Inr (''Your Drive has no such files.'' @ newline @ ''Anything else?''))"
proof -
  have e: "accumulated_texts resp_call = []"
    by (simp add: accumulated_texts_def texts_before_call_def response_parts_def resp_call_def
          dispatches_def)
  have t: "response_texts resp_final = [''Your Drive has no such files.'', ''Anything else?'']"
    by (simp add: response_texts_def response_parts_def resp_final_def part_from_text_def
          text_of_def)
  show ?thesis
    using query_joins_accumulated_texts [OF io_search_first io_search_run] e t
      io_search_first io_search_run
    by simp
qed

text \<open>
  C2, as stated, fails: the only response of the run carries the fragments \<open>Hello\<close>
  and \<open>world\<close>, and \<open>query\<close> returns them with a newline between, which is not
  their concatenation.
\<close>

theorem query_result_not_plain_concatenation:
  "query io_two_texts True () ''hi'' = Some (Inr (''Hello'' @ newline @ ''world''), ()) \<and>
   accumulated_texts resp_two_texts = [''Hello'', ''world''] \<and>
   ''Hello'' @ newline @ ''world'' \<noteq> concat (accumulated_texts resp_two_texts)"
proof -
  have a: "accumulated_texts resp_two_texts = [''Hello'', ''world'']"
    by (simp add: accumulated_texts_def texts_before_call_def response_parts_def
          resp_two_texts_def part_from_text_def text_of_def dispatches_def)
  have q: "query io_two_texts True () ''hi'' = Some (Inr (''Hello'' @ newline @ ''world''), ())"
    by (simp add: query_def io_two_texts_def, subst while_response.simps)
       (simp add: resp_two_texts_def part_from_text_def text_of_def)
  show ?thesis
    using a q by (simp add: newline_def)
qed

end
